theory Spec2Isabelle
  imports Complex_Main "HOL-Library.AList" "HOL-Library.Monad_Syntax"
begin

section \<open>Alarm model (backend/models/alarm.py)\<close>

text \<open>
  The enumerations keep the declaration order of the source. Timestamps are
  \<open>datetime\<close> values; they are modelled as a count of microseconds, the
  resolution of Python's \<open>datetime\<close>.
\<close>

datatype AlarmSeverity = CRITICAL | MAJOR | MINOR | WARNING | INFO

datatype AlarmStatus = ACTIVE | ACKNOWLEDGED | CLEARED | SUPPRESSED

type_synonym datetime = int

text \<open>
  The additional data attached to a threshold alarm (a dict with five fixed keys in
  the source) and the alarm message. The message is the f-string
  \<open>"{metric} {threshold_type} threshold exceeded: {value} {unit}"\<close>; it is
  kept as the tuple of the four values it is formatted from.
\<close>

record alarm_details =
  ad_metric_type :: string
  ad_value :: real
  ad_threshold :: real
  ad_threshold_type :: string
  ad_unit :: string

datatype alarm_message = ThresholdExceeded string string real string

text \<open>
  An alarm carries the attributes the monitoring core reads and writes: the source
  identity, the alarm type, severity, status, message, timestamp, the additional data,
  and the escalation counter of the model class.
\<close>

record Alarm =
  device_id :: string
  device_type :: string
  alarm_type :: string
  severity :: AlarmSeverity
  status :: AlarmStatus
  message :: alarm_message
  timestamp :: datetime
  additional_data :: "alarm_details option"
  escalation_level :: int

text \<open>
  \<open>Alarm.escalate\<close>: the counter is incremented first; then, unless the
  severity is already CRITICAL, the severity moves to the next entry of
  \<open>severity_order\<close>. \<open>list.index\<close> is \<open>index_of\<close>; every
  severity occurs in \<open>severity_order\<close>, so the \<open>ValueError\<close> of
  \<open>list.index\<close> cannot be raised, and the model returns the length of the
  list in that case, which fails the bound test and leaves the severity alone.
\<close>

definition severity_order :: "AlarmSeverity list" where
  "severity_order = [INFO, WARNING, MINOR, MAJOR, CRITICAL]"

fun index_of :: "'a \<Rightarrow> 'a list \<Rightarrow> nat" where
  "index_of x [] = 0"
| "index_of x (y # ys) = (if x = y then 0 else Suc (index_of x ys))"

definition escalate :: "Alarm \<Rightarrow> Alarm" where
  "escalate a =
     (let a1 = a\<lparr>escalation_level := escalation_level a + 1\<rparr>
      in if severity a1 \<noteq> CRITICAL
         then (let current_index = index_of (severity a1) severity_order
               in if current_index < length severity_order - 1
                  then a1\<lparr>severity := severity_order ! (current_index + 1)\<rparr>
                  else a1)
         else a1)"

text \<open>The ladder of the specification: one step up, CRITICAL at the top.\<close>

fun next_severity :: "AlarmSeverity \<Rightarrow> AlarmSeverity" where
  "next_severity INFO = WARNING"
| "next_severity WARNING = MINOR"
| "next_severity MINOR = MAJOR"
| "next_severity MAJOR = CRITICAL"
| "next_severity CRITICAL = CRITICAL"

text \<open>An alarm used to run the definitions on concrete values.\<close>

definition sample_alarm :: Alarm where
  "sample_alarm =
     \<lparr>device_id = ''olt-1'', device_type = ''olt'',
      alarm_type = ''threshold_cpu_usage'', severity = CRITICAL, status = ACTIVE,
      message = ThresholdExceeded ''cpu_usage'' ''critical'' 96 ''percent'',
      timestamp = 0, additional_data = None, escalation_level = 0\<rparr>"

section \<open>Threshold engine (backend/services/monitoring_service.py)\<close>

text \<open>
  A metric sample, with the attributes the threshold check reads.
  \<open>pd_metric_type\<close> is \<open>data.metric_type.value\<close>, the string of the
  enumeration member. Sample values are Python floats; the check only compares them
  with constants, so they are modelled as (finite) real numbers.
\<close>

record PerformanceData =
  pd_device_id :: string
  pd_device_type :: string
  pd_metric_type :: string
  pd_value :: real
  pd_unit :: string
  pd_timestamp :: datetime

datatype error = KeyError string | TypeError

text \<open>
  The threshold table of \<open>MonitoringService.__init__\<close>: a dict from the metric
  name to a dict from the bound's name to the bound.
\<close>

type_synonym threshold_table = "(string \<times> (string \<times> real) list) list"

definition thresholds :: threshold_table where
  "thresholds =
     [(''cpu_usage'', [(''warning'', 80), (''critical'', 95)]),
      (''memory_usage'', [(''warning'', 85), (''critical'', 95)]),
      (''temperature'', [(''warning'', 70), (''critical'', 85)]),
      (''optical_power_rx'', [(''warning'', - 25), (''critical'', - 30)]),
      (''optical_power_tx'', [(''warning'', - 3), (''critical'', - 5)]),
      (''ont_offline_ratio'', [(''warning'', 1 / 10), (''critical'', 2 / 10)])]"

text \<open>
  The database session. \<open>get_db_session\<close> builds it with
  \<open>autoflush=False\<close> (database/connection.py), so an object handed to
  \<open>db.add\<close> stays pending, and is not seen by a query, until
  \<open>db.commit\<close>. \<open>rows\<close> are the alarms a query can return (an
  attribute assignment on a returned alarm is seen by later queries of the session,
  which yield the same object); \<open>pending\<close> are the added ones.
\<close>

record session =
  rows :: "Alarm list"
  pending :: "Alarm list"

definition commit :: "session \<Rightarrow> session" where
  "commit db = \<lparr>rows = rows db @ pending db, pending = []\<rparr>"

text \<open>The filter of the query in \<open>_create_threshold_alarm\<close>.\<close>

definition similar_alarm :: "PerformanceData \<Rightarrow> Alarm \<Rightarrow> bool" where
  "similar_alarm data a \<longleftrightarrow>
     device_id a = pd_device_id data \<and>
     device_type a = pd_device_type data \<and>
     alarm_type a = ''threshold_'' @ pd_metric_type data \<and>
     status a = ACTIVE"

text \<open>An assignment to the attributes of the first row a query returns.\<close>

fun update_first :: "('a \<Rightarrow> bool) \<Rightarrow> ('a \<Rightarrow> 'a) \<Rightarrow> 'a list \<Rightarrow> 'a list" where
  "update_first P f [] = []"
| "update_first P f (x # xs) = (if P x then f x # xs else x # update_first P f xs)"

definition create_threshold_alarm ::
  "datetime \<Rightarrow> PerformanceData \<Rightarrow> AlarmSeverity \<Rightarrow> string \<Rightarrow> real \<Rightarrow> real \<Rightarrow>
     session \<Rightarrow> session" where
  "create_threshold_alarm now data sev threshold_type val threshold db =
     (case find (similar_alarm data) (rows db) of
        Some existing_alarm \<Rightarrow>
          db\<lparr>rows := update_first (similar_alarm data)
            (\<lambda>a. a\<lparr>severity := sev,
                   message := ThresholdExceeded (pd_metric_type data) threshold_type val
                                (pd_unit data),
                   timestamp := now\<rparr>) (rows db)\<rparr>
      | None \<Rightarrow>
          db\<lparr>pending := pending db @
            [\<lparr>device_id = pd_device_id data,
              device_type = pd_device_type data,
              alarm_type = ''threshold_'' @ pd_metric_type data,
              severity = sev,
              status = ACTIVE,
              message = ThresholdExceeded (pd_metric_type data) threshold_type val
                          (pd_unit data),
              timestamp = now,
              additional_data =
                Some \<lparr>ad_metric_type = pd_metric_type data, ad_value = val,
                      ad_threshold = threshold, ad_threshold_type = threshold_type,
                      ad_unit = pd_unit data\<rparr>,
              escalation_level = 0\<rparr>]\<rparr>)"

text \<open>
  The comparisons \<open>value >= d.get(key, float('inf'))\<close> and
  \<open>value <= d.get(key, float('-inf'))\<close>: with the key absent the default
  bound is infinite and no finite value reaches it.
\<close>

definition at_least :: "real \<Rightarrow> real option \<Rightarrow> bool" where
  "at_least v bound = (case bound of None \<Rightarrow> False | Some b \<Rightarrow> b \<le> v)"

definition at_most :: "real \<Rightarrow> real option \<Rightarrow> bool" where
  "at_most v bound = (case bound of None \<Rightarrow> False | Some b \<Rightarrow> v \<le> b)"

text \<open>
  The \<open>if\<close>/\<open>elif\<close> of \<open>_check_thresholds\<close> for one sample: which
  severity, threshold type and threshold are passed on to
  \<open>_create_threshold_alarm\<close>, if any. The subscripts
  \<open>thresholds["critical"]\<close> and \<open>thresholds["warning"]\<close> raise
  \<open>KeyError\<close> on a missing key.
\<close>

definition threshold_branch ::
  "(string \<times> real) list \<Rightarrow> real \<Rightarrow> error + (AlarmSeverity \<times> string \<times> real) option" where
  "threshold_branch th val =
     (if at_least val (map_of th ''critical'') \<or> at_most val (map_of th ''critical_low'')
      then (case map_of th ''critical'' of
              None \<Rightarrow> Inl (KeyError ''critical'')
            | Some c \<Rightarrow> Inr (Some (CRITICAL, ''critical'', c)))
      else if at_least val (map_of th ''warning'') \<or> at_most val (map_of th ''warning_low'')
      then (case map_of th ''warning'' of
              None \<Rightarrow> Inl (KeyError ''warning'')
            | Some w \<Rightarrow> Inr (Some (WARNING, ''warning'', w)))
      else Inr None)"

text \<open>The body of the loop over the recent samples.\<close>

definition check_sample ::
  "threshold_table \<Rightarrow> datetime \<Rightarrow> PerformanceData \<Rightarrow> session \<Rightarrow> error + session" where
  "check_sample ths now data db =
     (let metric_name = pd_metric_type data
      in case map_of ths metric_name of
           None \<Rightarrow> Inr db
         | Some th \<Rightarrow>
             (case threshold_branch th (pd_value data) of
                Inl e \<Rightarrow> Inl e
              | Inr None \<Rightarrow> Inr db
              | Inr (Some (sev, threshold_type, threshold)) \<Rightarrow>
                  Inr (create_threshold_alarm now data sev threshold_type (pd_value data)
                         threshold db)))"

text \<open>
  The loop; \<open>clock i\<close> is the reading of \<open>datetime.utcnow()\<close> taken while
  the \<open>i\<close>-th sample is handled. An exception leaves the loop and the function.
\<close>

fun check_loop ::
  "threshold_table \<Rightarrow> (nat \<Rightarrow> datetime) \<Rightarrow> nat \<Rightarrow> PerformanceData list \<Rightarrow> session \<Rightarrow>
     error + session" where
  "check_loop ths clock i [] db = Inr db"
| "check_loop ths clock i (data # rest) db =
     (case check_sample ths (clock i) data db of
        Inl e \<Rightarrow> Inl e
      | Inr db' \<Rightarrow> check_loop ths clock (Suc i) rest db')"

text \<open>The samples of the last ten minutes.\<close>

definition recent_data :: "datetime \<Rightarrow> PerformanceData list \<Rightarrow> PerformanceData list" where
  "recent_data now samples = filter (\<lambda>d. now - 600 * 1000000 \<le> pd_timestamp d) samples"

text \<open>
  \<open>_check_thresholds\<close>, from the stored samples and the alarm table to the alarm
  table after \<open>db.commit()\<close>. When an exception leaves the function nothing is
  committed.
\<close>

definition check_thresholds ::
  "threshold_table \<Rightarrow> datetime \<Rightarrow> (nat \<Rightarrow> datetime) \<Rightarrow> PerformanceData list \<Rightarrow> Alarm list \<Rightarrow>
     error + Alarm list" where
  "check_thresholds ths now clock samples alarms =
     (case check_loop ths clock 0 (recent_data now samples) \<lparr>rows = alarms, pending = []\<rparr> of
        Inl e \<Rightarrow> Inl e
      | Inr db \<Rightarrow> Inr (rows (commit db)))"

text \<open>Samples used to run the definitions on concrete values.\<close>

definition cpu_sample :: "real \<Rightarrow> datetime \<Rightarrow> PerformanceData" where
  "cpu_sample v t =
     \<lparr>pd_device_id = ''olt-1'', pd_device_type = ''olt'', pd_metric_type = ''cpu_usage'',
      pd_value = v, pd_unit = ''percent'', pd_timestamp = t\<rparr>"

definition rx_sample :: "real \<Rightarrow> PerformanceData" where
  "rx_sample v =
     \<lparr>pd_device_id = ''port-7'', pd_device_type = ''olt_port'',
      pd_metric_type = ''optical_power_rx'', pd_value = v, pd_unit = ''dbm'',
      pd_timestamp = 0\<rparr>"

definition latency_sample :: PerformanceData where
  "latency_sample =
     \<lparr>pd_device_id = ''olt-1'', pd_device_type = ''olt'', pd_metric_type = ''latency'',
      pd_value = 250, pd_unit = ''ms'', pd_timestamp = 0\<rparr>"

section \<open>Monitoring tasks and the scheduler loop (monitoring_service.py)\<close>

datatype MonitoringTaskType =
  DEVICE_DISCOVERY | PERFORMANCE_COLLECTION | HEALTH_CHECK | ALARM_MONITORING | THRESHOLD_CHECK

text \<open>
  The callback of a task is a coroutine supplied from outside. Of a callback the
  model keeps whether its call raises, for the call with \<open>success=True\<close> and
  for the call with \<open>success=False\<close>; a callback is taken not to assign to
  the task it is given. No task of the repository has one.
\<close>

datatype callback_behaviour =
  Callback (raises_on_success: bool) (raises_on_failure: bool)

record MonitoringTask =
  task_id :: string
  task_type :: MonitoringTaskType
  target_device_id :: "string option"
  target_device_type :: "string option"
  interval_seconds :: int
  enabled :: bool
  last_run :: "datetime option"
  next_run :: "datetime option"
  error_count :: int
  max_errors :: int
  callback :: "callback_behaviour option"
  parameters :: "(string \<times> bool) list"

text \<open>
  Every function that reads \<open>datetime.utcnow()\<close> takes the reading as an
  argument, one argument for each read. \<open>timedelta(seconds=n)\<close> is
  \<open>n * 1000000\<close> microseconds. The range limit of \<open>datetime\<close> (year
  9999) is not modelled.
\<close>

definition post_init :: "datetime \<Rightarrow> MonitoringTask \<Rightarrow> MonitoringTask" where
  "post_init now t = (if next_run t = None then t\<lparr>next_run := Some now\<rparr> else t)"

text \<open>
  The dataclass constructor with the defaults of the field declarations, followed by
  \<open>__post_init__\<close>. The arguments are the ones the repository passes.
\<close>

definition new_task ::
  "datetime \<Rightarrow> string \<Rightarrow> MonitoringTaskType \<Rightarrow> int \<Rightarrow> (string \<times> bool) list \<Rightarrow> MonitoringTask" where
  "new_task now tid ty interval params =
     post_init now
       \<lparr>task_id = tid, task_type = ty, target_device_id = None, target_device_type = None,
        interval_seconds = interval, enabled = True, last_run = None, next_run = None,
        error_count = 0, max_errors = 5, callback = None, parameters = params\<rparr>"

text \<open>
  \<open>is_due\<close>: \<open>and\<close> does not evaluate the comparison for a disabled
  task; the comparison of \<open>None\<close> with a \<open>datetime\<close> raises
  \<open>TypeError\<close>.
\<close>

definition is_due :: "datetime \<Rightarrow> MonitoringTask \<Rightarrow> error + bool" where
  "is_due now t =
     (if enabled t
      then (case next_run t of None \<Rightarrow> Inl TypeError | Some nr \<Rightarrow> Inr (nr \<le> now))
      else Inr False)"

definition is_healthy :: "MonitoringTask \<Rightarrow> bool" where
  "is_healthy t \<longleftrightarrow> error_count t < max_errors t"

definition schedule_next_run :: "datetime \<Rightarrow> MonitoringTask \<Rightarrow> MonitoringTask" where
  "schedule_next_run now t = t\<lparr>next_run := Some (now + interval_seconds t * 1000000)\<rparr>"

definition mark_success :: "datetime \<Rightarrow> datetime \<Rightarrow> MonitoringTask \<Rightarrow> MonitoringTask" where
  "mark_success now1 now2 t =
     schedule_next_run now2 (t\<lparr>last_run := Some now1, error_count := 0\<rparr>)"

definition mark_error :: "datetime \<Rightarrow> MonitoringTask \<Rightarrow> MonitoringTask" where
  "mark_error now t =
     (let t1 = t\<lparr>error_count := error_count t + 1\<rparr>
      in if error_count t1 \<ge> max_errors t1
         then t1\<lparr>enabled := False\<rparr>
         else schedule_next_run now t1)"

text \<open>
  \<open>_execute_task\<close>. \<open>body_ok\<close> tells whether the coroutine chosen by the
  task type returns without an exception. The \<open>try\<close> block also holds
  \<open>mark_success\<close> and the callback, so a callback that raises after a good
  run leads into the handler. An exception of the callback inside the handler leaves
  \<open>_execute_task\<close>, is collected by \<open>asyncio.gather\<close>, and changes
  nothing of the task.
\<close>

definition execute_task ::
  "bool \<Rightarrow> datetime \<Rightarrow> datetime \<Rightarrow> datetime \<Rightarrow> MonitoringTask \<Rightarrow> MonitoringTask" where
  "execute_task body_ok now1 now2 now3 t =
     (if body_ok
      then (let t1 = mark_success now1 now2 t
            in case callback t1 of
                 None \<Rightarrow> t1
               | Some cb \<Rightarrow> if raises_on_success cb then mark_error now3 t1 else t1)
      else mark_error now3 t)"

text \<open>
  The selection of the scheduler loop,
  \<open>[task for task in self.tasks.values() if task.is_due and task.is_healthy]\<close>.
  Each task comes with the clock reading of its own \<open>is_due\<close>. A
  \<open>TypeError\<close> leaves the comprehension.
\<close>

fun due_tasks :: "(datetime \<times> MonitoringTask) list \<Rightarrow> error + MonitoringTask list" where
  "due_tasks [] = Inr []"
| "due_tasks ((now, task) # rest) =
     (case is_due now task of
        Inl e \<Rightarrow> Inl e
      | Inr due \<Rightarrow>
          (case due_tasks rest of
             Inl e \<Rightarrow> Inl e
           | Inr selected \<Rightarrow> Inr (if due \<and> is_healthy task then task # selected else selected)))"

text \<open>
  \<open>self.tasks\<close> is a dict in insertion order, from the task identifier to the
  task; \<open>add_task\<close> assigns to the key.
\<close>

type_synonym task_table = "(string \<times> MonitoringTask) list"

definition add_task :: "MonitoringTask \<Rightarrow> task_table \<Rightarrow> task_table" where
  "add_task task tasks = AList.update (task_id task) task tasks"

definition initialize_default_tasks ::
  "datetime \<Rightarrow> datetime \<Rightarrow> datetime \<Rightarrow> datetime \<Rightarrow> task_table \<Rightarrow> task_table" where
  "initialize_default_tasks now1 now2 now3 now4 tasks =
     add_task (new_task now4 ''global_alarm_monitoring'' ALARM_MONITORING 60
                 [(''monitor_all'', True)])
       (add_task (new_task now3 ''global_threshold_check'' THRESHOLD_CHECK 120
                    [(''check_all'', True)])
          (add_task (new_task now2 ''global_health_check'' HEALTH_CHECK 300
                       [(''check_all'', True)])
             (add_task (new_task now1 ''global_device_discovery'' DEVICE_DISCOVERY 600
                          [(''discover_all'', True)])
                tasks)))"

text \<open>A task used to run the definitions on concrete values.\<close>

definition sample_task :: MonitoringTask where
  "sample_task =
     \<lparr>task_id = ''poll-olt-1'', task_type = PERFORMANCE_COLLECTION,
      target_device_id = Some ''olt-1'', target_device_type = Some ''olt'',
      interval_seconds = 300, enabled = True, last_run = None, next_run = Some 0,
      error_count = 0, max_errors = 3, callback = None, parameters = []\<rparr>"

section \<open>SNMP transport client (backend/services/snmp_service.py)\<close>

text \<open>
  An object identifier is the list of its arcs: the source writes it as the dotted
  string of the arcs, builds the identifiers of a request by appending
  \<open>.{slot}.{port}\<close> or \<open>.{slot}.{port}.{ont_id}\<close> to a constant, and
  reads the identifiers of a walk as \<open>str(var_bind[0])\<close>, the dotted string of
  the arcs the device returned.
\<close>

type_synonym oid = "int list"

text \<open>
  What awaiting a pysnmp command yields: an exception, or the error indication
  (\<open>None\<close> when there is none), the error status (0 when there is none) and the
  variable bindings.
\<close>

datatype 'v reply =
  Raised
| Reply "string option" int "(oid \<times> 'v) list"

text \<open>
  The environment of the client. The device is a state \<open>'d\<close> with the answer
  to a GET of a list of identifiers (\<open>getCmd\<close>) and the sequence of answers
  the iterator of a walk yields (\<open>nextCmd\<close>, taken to be finite). The values
  \<open>'v\<close> are those of the pysnmp library, which is not part of the repository:
  the conversions the adapter applies to them are parameters, \<open>None\<close> standing
  for a raised exception.
\<close>

record ('d, 'v) env =
  getCmd :: "'d \<Rightarrow> oid list \<Rightarrow> 'v reply \<times> 'd"
  nextCmd :: "'d \<Rightarrow> oid \<Rightarrow> 'v reply list \<times> 'd"
  py_int :: "'v \<Rightarrow> int option"
  py_float :: "'v \<Rightarrow> real option"
  py_str :: "'v \<Rightarrow> string"
  py_bool :: "'v \<Rightarrow> bool"
  equals_one :: "'v \<Rightarrow> bool"

text \<open>
  \<open>SNMPService.get_bulk\<close>. The result dict is an association list;
  \<open>results[oids[i]] = var_bind[1]\<close> is \<open>AList.update\<close>.
\<close>

definition get_bulk :: "('d, 'v) env \<Rightarrow> oid list \<Rightarrow> 'd \<Rightarrow> (oid \<times> 'v) list \<times> 'd" where
  "get_bulk e oids d =
     (case getCmd e d oids of
        (Raised, d') \<Rightarrow> ([], d')
      | (Reply error_indication error_status var_binds, d') \<Rightarrow>
          (if error_indication \<noteq> None then ([], d')
           else if error_status \<noteq> 0 then ([], d')
           else (foldl (\<lambda>results (i, var_bind).
                          if i < length oids
                          then AList.update (oids ! i) (snd var_bind) results
                          else results)
                   [] (enumerate 0 var_binds), d')))"

text \<open>
  \<open>SNMPService.walk\<close>: the loop stops at the first answer with an error
  indication or an error status, and at an exception, and returns what it has.
\<close>

fun walk_loop :: "'v reply list \<Rightarrow> (oid \<times> 'v) list \<Rightarrow> (oid \<times> 'v) list" where
  "walk_loop [] results = results"
| "walk_loop (Raised # rest) results = results"
| "walk_loop (Reply error_indication error_status var_binds # rest) results =
     (if error_indication \<noteq> None then results
      else if error_status \<noteq> 0 then results
      else walk_loop rest
             (foldl (\<lambda>results var_bind. AList.update (fst var_bind) (snd var_bind) results)
                results var_binds))"

definition walk :: "('d, 'v) env \<Rightarrow> oid \<Rightarrow> 'd \<Rightarrow> (oid \<times> 'v) list \<times> 'd" where
  "walk e oid d = (case nextCmd e d oid of (answers, d') \<Rightarrow> (walk_loop answers [], d'))"

section \<open>Device protocol adapter (ZTEOLTService)\<close>

definition OID_PORT_ADMIN_STATUS :: oid where
  "OID_PORT_ADMIN_STATUS = [1, 3, 6, 1, 4, 1, 3902, 1012, 3, 28, 1, 1, 3]"

definition OID_PORT_OPER_STATUS :: oid where
  "OID_PORT_OPER_STATUS = [1, 3, 6, 1, 4, 1, 3902, 1012, 3, 28, 1, 1, 4]"

definition OID_PORT_ONT_COUNT :: oid where
  "OID_PORT_ONT_COUNT = [1, 3, 6, 1, 4, 1, 3902, 1012, 3, 28, 1, 1, 5]"

definition OID_PORT_MAX_ONT :: oid where
  "OID_PORT_MAX_ONT = [1, 3, 6, 1, 4, 1, 3902, 1012, 3, 28, 1, 1, 6]"

definition OID_PORT_OPTICAL_TX :: oid where
  "OID_PORT_OPTICAL_TX = [1, 3, 6, 1, 4, 1, 3902, 1012, 3, 28, 1, 1, 7]"

definition OID_PORT_OPTICAL_RX :: oid where
  "OID_PORT_OPTICAL_RX = [1, 3, 6, 1, 4, 1, 3902, 1012, 3, 28, 1, 1, 8]"

definition OID_PORT_TEMPERATURE :: oid where
  "OID_PORT_TEMPERATURE = [1, 3, 6, 1, 4, 1, 3902, 1012, 3, 28, 1, 1, 9]"

definition OID_PORT_VOLTAGE :: oid where
  "OID_PORT_VOLTAGE = [1, 3, 6, 1, 4, 1, 3902, 1012, 3, 28, 1, 1, 10]"

definition OID_PORT_BIAS_CURRENT :: oid where
  "OID_PORT_BIAS_CURRENT = [1, 3, 6, 1, 4, 1, 3902, 1012, 3, 28, 1, 1, 11]"

definition OID_PORT_RX_BYTES :: oid where
  "OID_PORT_RX_BYTES = [1, 3, 6, 1, 4, 1, 3902, 1012, 3, 28, 2, 1, 2]"

definition OID_PORT_TX_BYTES :: oid where
  "OID_PORT_TX_BYTES = [1, 3, 6, 1, 4, 1, 3902, 1012, 3, 28, 2, 1, 3]"

definition OID_PORT_RX_PACKETS :: oid where
  "OID_PORT_RX_PACKETS = [1, 3, 6, 1, 4, 1, 3902, 1012, 3, 28, 2, 1, 4]"

definition OID_PORT_TX_PACKETS :: oid where
  "OID_PORT_TX_PACKETS = [1, 3, 6, 1, 4, 1, 3902, 1012, 3, 28, 2, 1, 5]"

definition OID_PORT_RX_ERRORS :: oid where
  "OID_PORT_RX_ERRORS = [1, 3, 6, 1, 4, 1, 3902, 1012, 3, 28, 2, 1, 6]"

definition OID_PORT_TX_ERRORS :: oid where
  "OID_PORT_TX_ERRORS = [1, 3, 6, 1, 4, 1, 3902, 1012, 3, 28, 2, 1, 7]"

definition OID_ONT_STATUS :: oid where
  "OID_ONT_STATUS = [1, 3, 6, 1, 4, 1, 3902, 1012, 3, 50, 12, 1, 1, 10]"

definition OID_ONT_DISTANCE :: oid where
  "OID_ONT_DISTANCE = [1, 3, 6, 1, 4, 1, 3902, 1012, 3, 50, 12, 1, 1, 11]"

definition OID_ONT_RX_POWER :: oid where
  "OID_ONT_RX_POWER = [1, 3, 6, 1, 4, 1, 3902, 1012, 3, 50, 12, 1, 1, 12]"

definition OID_ONT_TX_POWER :: oid where
  "OID_ONT_TX_POWER = [1, 3, 6, 1, 4, 1, 3902, 1012, 3, 50, 12, 1, 1, 13]"

definition OID_ONT_VOLTAGE :: oid where
  "OID_ONT_VOLTAGE = [1, 3, 6, 1, 4, 1, 3902, 1012, 3, 50, 12, 1, 1, 14]"

definition OID_ONT_TEMPERATURE :: oid where
  "OID_ONT_TEMPERATURE = [1, 3, 6, 1, 4, 1, 3902, 1012, 3, 50, 12, 1, 1, 15]"

definition OID_ONT_SERIAL :: oid where
  "OID_ONT_SERIAL = [1, 3, 6, 1, 4, 1, 3902, 1012, 3, 50, 12, 1, 1, 3]"

definition OID_ONT_FIRMWARE :: oid where
  "OID_ONT_FIRMWARE = [1, 3, 6, 1, 4, 1, 3902, 1012, 3, 50, 12, 1, 1, 16]"

definition OID_ONT_HARDWARE :: oid where
  "OID_ONT_HARDWARE = [1, 3, 6, 1, 4, 1, 3902, 1012, 3, 50, 12, 1, 1, 17]"

definition OID_ONT_MAC :: oid where
  "OID_ONT_MAC = [1, 3, 6, 1, 4, 1, 3902, 1012, 3, 50, 12, 1, 1, 18]"

definition OID_ONT_UPTIME :: oid where
  "OID_ONT_UPTIME = [1, 3, 6, 1, 4, 1, 3902, 1012, 3, 50, 12, 1, 1, 19]"

definition OID_ONT_RX_BYTES :: oid where
  "OID_ONT_RX_BYTES = [1, 3, 6, 1, 4, 1, 3902, 1012, 3, 50, 13, 1, 1, 2]"

definition OID_ONT_TX_BYTES :: oid where
  "OID_ONT_TX_BYTES = [1, 3, 6, 1, 4, 1, 3902, 1012, 3, 50, 13, 1, 1, 3]"

definition OID_ONT_RX_PACKETS :: oid where
  "OID_ONT_RX_PACKETS = [1, 3, 6, 1, 4, 1, 3902, 1012, 3, 50, 13, 1, 1, 4]"

definition OID_ONT_TX_PACKETS :: oid where
  "OID_ONT_TX_PACKETS = [1, 3, 6, 1, 4, 1, 3902, 1012, 3, 50, 13, 1, 1, 5]"

record PortInfo =
  slot :: int
  port :: int
  admin_status :: bool
  oper_status :: string
  ont_count :: int
  max_ont_count :: int
  optical_power_tx :: real
  optical_power_rx :: real
  temperature :: real
  voltage :: real
  bias_current :: real
  rx_bytes :: int
  tx_bytes :: int
  rx_packets :: int
  tx_packets :: int
  rx_errors :: int
  tx_errors :: int

text \<open>
  The fields of \<open>ONTInfo\<close> whose names are also fields of \<open>PortInfo\<close> or
  \<open>Alarm\<close> carry the prefix \<open>ont_\<close>.
\<close>

record ONTInfo =
  ont_id :: int
  serial_number :: string
  ont_status :: string
  distance :: int
  rx_power :: real
  tx_power :: real
  ont_voltage :: real
  ont_temperature :: real
  firmware_version :: string
  hardware_version :: string
  mac_address :: string
  uptime :: int
  ont_rx_bytes :: int
  ont_tx_bytes :: int
  ont_rx_packets :: int
  ont_tx_packets :: int

text \<open>
  \<open>int(data.get(key, 0))\<close>, \<open>float(data.get(key, 0))\<close>,
  \<open>str(data.get(key, ""))\<close>, \<open>bool(data.get(key, 0))\<close> and
  \<open>data.get(key, 0) == 1\<close>.
\<close>

definition get_int :: "('d, 'v) env \<Rightarrow> (oid \<times> 'v) list \<Rightarrow> oid \<Rightarrow> int option" where
  "get_int e data key = (case map_of data key of None \<Rightarrow> Some 0 | Some v \<Rightarrow> py_int e v)"

definition get_float :: "('d, 'v) env \<Rightarrow> (oid \<times> 'v) list \<Rightarrow> oid \<Rightarrow> real option" where
  "get_float e data key = (case map_of data key of None \<Rightarrow> Some 0 | Some v \<Rightarrow> py_float e v)"

definition get_str :: "('d, 'v) env \<Rightarrow> (oid \<times> 'v) list \<Rightarrow> oid \<Rightarrow> string" where
  "get_str e data key = (case map_of data key of None \<Rightarrow> [] | Some v \<Rightarrow> py_str e v)"

definition get_bool :: "('d, 'v) env \<Rightarrow> (oid \<times> 'v) list \<Rightarrow> oid \<Rightarrow> bool" where
  "get_bool e data key = (case map_of data key of None \<Rightarrow> False | Some v \<Rightarrow> py_bool e v)"

definition get_is_one :: "('d, 'v) env \<Rightarrow> (oid \<times> 'v) list \<Rightarrow> oid \<Rightarrow> bool" where
  "get_is_one e data key = (case map_of data key of None \<Rightarrow> False | Some v \<Rightarrow> equals_one e v)"

text \<open>The identifiers \<open>get_port_info\<close> asks for, in the order of the source.\<close>

definition port_oids :: "int \<Rightarrow> int \<Rightarrow> oid list" where
  "port_oids s p =
     map (\<lambda>base. base @ [s, p])
       [OID_PORT_ADMIN_STATUS, OID_PORT_OPER_STATUS, OID_PORT_ONT_COUNT, OID_PORT_MAX_ONT,
        OID_PORT_OPTICAL_TX, OID_PORT_OPTICAL_RX, OID_PORT_TEMPERATURE, OID_PORT_VOLTAGE,
        OID_PORT_BIAS_CURRENT, OID_PORT_RX_BYTES, OID_PORT_TX_BYTES, OID_PORT_RX_PACKETS,
        OID_PORT_TX_PACKETS, OID_PORT_RX_ERRORS, OID_PORT_TX_ERRORS]"

text \<open>
  The construction of \<open>PortInfo\<close> from the result of the bulk GET (the
  statement \<open>port_info = PortInfo(...)\<close>); \<open>None\<close> when a conversion
  raises, which \<open>get_port_info\<close> turns into the result \<open>None\<close>.
\<close>

definition parse_port_info ::
  "('d, 'v) env \<Rightarrow> int \<Rightarrow> int \<Rightarrow> (oid \<times> 'v) list \<Rightarrow> PortInfo option" where
  "parse_port_info e s p port_data =
     do {
       oc \<leftarrow> get_int e port_data (OID_PORT_ONT_COUNT @ [s, p]);
       mc \<leftarrow> get_int e port_data (OID_PORT_MAX_ONT @ [s, p]);
       otx \<leftarrow> get_float e port_data (OID_PORT_OPTICAL_TX @ [s, p]);
       orx \<leftarrow> get_float e port_data (OID_PORT_OPTICAL_RX @ [s, p]);
       tmp \<leftarrow> get_float e port_data (OID_PORT_TEMPERATURE @ [s, p]);
       vlt \<leftarrow> get_float e port_data (OID_PORT_VOLTAGE @ [s, p]);
       bc \<leftarrow> get_float e port_data (OID_PORT_BIAS_CURRENT @ [s, p]);
       rxb \<leftarrow> get_int e port_data (OID_PORT_RX_BYTES @ [s, p]);
       txb \<leftarrow> get_int e port_data (OID_PORT_TX_BYTES @ [s, p]);
       rxp \<leftarrow> get_int e port_data (OID_PORT_RX_PACKETS @ [s, p]);
       txp \<leftarrow> get_int e port_data (OID_PORT_TX_PACKETS @ [s, p]);
       rxe \<leftarrow> get_int e port_data (OID_PORT_RX_ERRORS @ [s, p]);
       txe \<leftarrow> get_int e port_data (OID_PORT_TX_ERRORS @ [s, p]);
       Some \<lparr>slot = s, port = p,
             admin_status = get_bool e port_data (OID_PORT_ADMIN_STATUS @ [s, p]),
             oper_status =
               (if get_is_one e port_data (OID_PORT_OPER_STATUS @ [s, p])
                then ''up'' else ''down''),
             ont_count = oc, max_ont_count = mc,
             optical_power_tx = otx / 100, optical_power_rx = orx / 100,
             temperature = tmp / 100, voltage = vlt / 1000, bias_current = bc / 1000,
             rx_bytes = rxb, tx_bytes = txb, rx_packets = rxp, tx_packets = txp,
             rx_errors = rxe, tx_errors = txe\<rparr>
     }"

definition get_port_info ::
  "('d, 'v) env \<Rightarrow> int \<Rightarrow> int \<Rightarrow> 'd \<Rightarrow> PortInfo option \<times> 'd" where
  "get_port_info e s p d =
     (case get_bulk e (port_oids s p) d of
        (port_data, d') \<Rightarrow>
          (if port_data = [] then (None, d') else (parse_port_info e s p port_data, d')))"

definition ont_oids :: "int \<Rightarrow> int \<Rightarrow> int \<Rightarrow> oid list" where
  "ont_oids s p i =
     map (\<lambda>base. base @ [s, p, i])
       [OID_ONT_STATUS, OID_ONT_DISTANCE, OID_ONT_RX_POWER, OID_ONT_TX_POWER,
        OID_ONT_VOLTAGE, OID_ONT_TEMPERATURE, OID_ONT_SERIAL, OID_ONT_FIRMWARE,
        OID_ONT_HARDWARE, OID_ONT_MAC, OID_ONT_UPTIME, OID_ONT_RX_BYTES, OID_ONT_TX_BYTES,
        OID_ONT_RX_PACKETS, OID_ONT_TX_PACKETS]"

definition status_map :: "int \<Rightarrow> string" where
  "status_map status_code =
     (if status_code = 1 then ''online''
      else if status_code = 2 then ''offline''
      else if status_code = 3 then ''dying_gasp''
      else if status_code = 4 then ''los''
      else ''unknown'')"

text \<open>
  The status lookup and the construction of \<open>ONTInfo\<close> from the result of the
  bulk GET; \<open>None\<close> when a conversion raises.
\<close>

definition parse_ont_info ::
  "('d, 'v) env \<Rightarrow> int \<Rightarrow> int \<Rightarrow> int \<Rightarrow> (oid \<times> 'v) list \<Rightarrow> ONTInfo option" where
  "parse_ont_info e s p i ont_data =
     do {
       status_code \<leftarrow> get_int e ont_data (OID_ONT_STATUS @ [s, p, i]);
       dist \<leftarrow> get_int e ont_data (OID_ONT_DISTANCE @ [s, p, i]);
       rx \<leftarrow> get_float e ont_data (OID_ONT_RX_POWER @ [s, p, i]);
       tx \<leftarrow> get_float e ont_data (OID_ONT_TX_POWER @ [s, p, i]);
       vlt \<leftarrow> get_float e ont_data (OID_ONT_VOLTAGE @ [s, p, i]);
       tmp \<leftarrow> get_float e ont_data (OID_ONT_TEMPERATURE @ [s, p, i]);
       up \<leftarrow> get_int e ont_data (OID_ONT_UPTIME @ [s, p, i]);
       rxb \<leftarrow> get_int e ont_data (OID_ONT_RX_BYTES @ [s, p, i]);
       txb \<leftarrow> get_int e ont_data (OID_ONT_TX_BYTES @ [s, p, i]);
       rxp \<leftarrow> get_int e ont_data (OID_ONT_RX_PACKETS @ [s, p, i]);
       txp \<leftarrow> get_int e ont_data (OID_ONT_TX_PACKETS @ [s, p, i]);
       Some \<lparr>ont_id = i,
             serial_number = get_str e ont_data (OID_ONT_SERIAL @ [s, p, i]),
             ont_status = status_map status_code,
             distance = dist,
             rx_power = rx / 100, tx_power = tx / 100,
             ont_voltage = vlt / 1000, ont_temperature = tmp / 100,
             firmware_version = get_str e ont_data (OID_ONT_FIRMWARE @ [s, p, i]),
             hardware_version = get_str e ont_data (OID_ONT_HARDWARE @ [s, p, i]),
             mac_address = get_str e ont_data (OID_ONT_MAC @ [s, p, i]),
             uptime = up,
             ont_rx_bytes = rxb, ont_tx_bytes = txb,
             ont_rx_packets = rxp, ont_tx_packets = txp\<rparr>
     }"

definition get_ont_info ::
  "('d, 'v) env \<Rightarrow> int \<Rightarrow> int \<Rightarrow> int \<Rightarrow> 'd \<Rightarrow> ONTInfo option \<times> 'd" where
  "get_ont_info e s p i d =
     (case get_bulk e (ont_oids s p i) d of
        (ont_data, d') \<Rightarrow>
          (if ont_data = [] then (None, d') else (parse_ont_info e s p i ont_data, d')))"

text \<open>
  \<open>int(oid.split('.')[-1])\<close> is the last arc of the identifier; for the empty
  identifier \<open>int('')\<close> raises \<open>ValueError\<close>.
\<close>

definition last_arc :: "oid \<Rightarrow> int option" where
  "last_arc oid = (if oid = [] then None else Some (last oid))"

text \<open>
  The loop of \<open>discover_all_onts\<close> over the entries of the walk. An entry
  whose identifier gives no number is skipped by the \<open>except\<close> clause; a fetch
  that yields \<open>None\<close> adds nothing; a fetched record is appended.
\<close>

fun onts_loop ::
  "('d, 'v) env \<Rightarrow> int \<Rightarrow> int \<Rightarrow> (oid \<times> 'v) list \<Rightarrow> ONTInfo list \<Rightarrow> 'd \<Rightarrow> ONTInfo list \<times> 'd" where
  "onts_loop e s p [] onts d = (onts, d)"
| "onts_loop e s p ((oid, v) # rest) onts d =
     (case last_arc oid of
        None \<Rightarrow> onts_loop e s p rest onts d
      | Some i \<Rightarrow>
          (case get_ont_info e s p i d of
             (None, d') \<Rightarrow> onts_loop e s p rest onts d'
           | (Some ont_info, d') \<Rightarrow> onts_loop e s p rest (onts @ [ont_info]) d'))"

definition discover_all_onts ::
  "('d, 'v) env \<Rightarrow> int \<Rightarrow> int \<Rightarrow> 'd \<Rightarrow> ONTInfo list \<times> 'd" where
  "discover_all_onts e s p d =
     (case walk e (OID_ONT_STATUS @ [s, p]) d of
        (ont_status_data, d') \<Rightarrow> onts_loop e s p ont_status_data [] d')"

text \<open>
  The outcome of every detail fetch of a discovery pass, in the order of the calls:
  one entry for each enumerated ONT.
\<close>

fun ont_fetches ::
  "('d, 'v) env \<Rightarrow> int \<Rightarrow> int \<Rightarrow> (oid \<times> 'v) list \<Rightarrow> 'd \<Rightarrow> ONTInfo option list" where
  "ont_fetches e s p [] d = []"
| "ont_fetches e s p ((oid, v) # rest) d =
     (case last_arc oid of
        None \<Rightarrow> ont_fetches e s p rest d
      | Some i \<Rightarrow>
          (case get_ont_info e s p i d of
             (r, d') \<Rightarrow> r # ont_fetches e s p rest d'))"

text \<open>
  A device used to run the definitions on concrete values. Its values are
  integers. It answers a GET with an error indication when the request is for ONT 2,
  and otherwise with the value -2550 for every identifier asked for; a walk yields
  the ONTs 1, 2 and 3.
\<close>

definition test_env :: "(unit, int) env" where
  "test_env =
     \<lparr>getCmd = (\<lambda>d oids.
         (if oids \<noteq> [] \<and> last (hd oids) = 2
          then Reply (Some ''requestTimedOut'') 0 []
          else Reply None 0 (map (\<lambda>oid. (oid, - 2550)) oids), d)),
      nextCmd = (\<lambda>d oid. ([Reply None 0 [(oid @ [1], 1)], Reply None 0 [(oid @ [2], 1)],
                             Reply None 0 [(oid @ [3], 1)]], d)),
      py_int = Some,
      py_float = (\<lambda>v. Some (real_of_int v)),
      py_str = (\<lambda>v. []),
      py_bool = (\<lambda>v. v \<noteq> 0),
      equals_one = (\<lambda>v. v = 1)\<rparr>"

lemma escalate_level: "escalation_level (escalate a) = escalation_level a + 1"
  by (simp add: escalate_def Let_def)

lemma escalate_severity: "severity (escalate a) = next_severity (severity a)"
  by (cases "severity a") (simp_all add: escalate_def Let_def severity_order_def)

lemma escalate_critical_iter:
  "severity a = CRITICAL \<Longrightarrow>
     severity ((escalate ^^ n) a) = CRITICAL \<and>
     escalation_level ((escalate ^^ n) a) = escalation_level a + int n"
  by (induction n) (simp_all add: escalate_level escalate_severity)

text \<open>
  Claim C8. Each call of \<open>escalate\<close> adds exactly one to
  \<open>escalation_level\<close> and moves the severity one step up the ladder
  info, warning, minor, major, critical; on a CRITICAL alarm the severity stays
  CRITICAL, and after \<open>n\<close> calls on a CRITICAL alarm the severity is still
  CRITICAL while the counter has grown by \<open>n\<close>, for every \<open>n\<close>.
\<close>

theorem escalate_ladder:
  "escalation_level (escalate a) = escalation_level a + 1 \<and>
   severity (escalate a) = next_severity (severity a) \<and>
   (severity a \<noteq> CRITICAL \<longrightarrow> severity (escalate a) \<noteq> severity a) \<and>
   (severity a = CRITICAL \<longrightarrow>
      severity ((escalate ^^ n) a) = CRITICAL \<and>
      escalation_level ((escalate ^^ n) a) = escalation_level a + int n)"
proof -
  have "severity a \<noteq> CRITICAL \<longrightarrow> severity (escalate a) \<noteq> severity a"
    by (cases "severity a") (simp_all add: escalate_severity)
  then show ?thesis
    using escalate_level [of a] escalate_severity [of a] escalate_critical_iter [of a n]
    by blast
qed

theorem escalate_ladder_witness:
  "escalation_level (escalate (sample_alarm\<lparr>severity := MINOR\<rparr>)) = 1 \<and>
   severity (escalate (sample_alarm\<lparr>severity := MINOR\<rparr>)) = MAJOR \<and>
   severity ((escalate ^^ 3) sample_alarm) = CRITICAL \<and>
   escalation_level ((escalate ^^ 3) sample_alarm) = 3"
  using escalate_ladder [of "sample_alarm\<lparr>severity := MINOR\<rparr>" 0]
    escalate_ladder [of sample_alarm 3]
  by (simp add: sample_alarm_def)
section \<open>Properties of the threshold engine\<close>

lemma find_update_first:
  "find P xs = Some x \<Longrightarrow> P (f x) \<Longrightarrow> find P (update_first P f xs) = Some (f x)"
  by (induction xs) (auto split: if_splits)

lemma length_update_first: "length (update_first P f xs) = length xs"
  by (induction xs) simp_all

lemma similar_alarm_update:
  "similar_alarm data (a\<lparr>severity := s, message := m, timestamp := t\<rparr>) = similar_alarm data a"
  by (simp add: similar_alarm_def)

text \<open>
  One call of \<open>_create_threshold_alarm\<close>: when the query finds a row, that row
  is updated and nothing is added; when it finds none, one ACTIVE alarm with the given
  severity becomes pending.
\<close>

lemma create_threshold_alarm_existing:
  assumes "find (similar_alarm data) (rows db) = Some a"
  shows "pending (create_threshold_alarm now data sev tt v thr db) = pending db"
    and "length (rows (create_threshold_alarm now data sev tt v thr db)) = length (rows db)"
    and "find (similar_alarm data) (rows (create_threshold_alarm now data sev tt v thr db)) =
           Some (a\<lparr>severity := sev,
                    message := ThresholdExceeded (pd_metric_type data) tt v (pd_unit data),
                    timestamp := now\<rparr>)"
proof -
  let ?f = "\<lambda>a. a\<lparr>severity := sev,
                    message := ThresholdExceeded (pd_metric_type data) tt v (pd_unit data),
                    timestamp := now\<rparr>"
  have P: "similar_alarm data a"
    using assms by (auto simp: find_Some_iff)
  have eq: "create_threshold_alarm now data sev tt v thr db =
              db\<lparr>rows := update_first (similar_alarm data) ?f (rows db)\<rparr>"
    using assms by (simp add: create_threshold_alarm_def)
  show "pending (create_threshold_alarm now data sev tt v thr db) = pending db"
    by (simp add: eq)
  show "length (rows (create_threshold_alarm now data sev tt v thr db)) = length (rows db)"
    by (simp add: eq length_update_first)
  have "find (similar_alarm data) (update_first (similar_alarm data) ?f (rows db)) = Some (?f a)"
    using assms P by (intro find_update_first) (simp_all add: similar_alarm_update)
  then show "find (similar_alarm data) (rows (create_threshold_alarm now data sev tt v thr db)) =
           Some (?f a)"
    by (simp add: eq)
qed

lemma create_threshold_alarm_new:
  assumes "find (similar_alarm data) (rows db) = None"
  shows "rows (create_threshold_alarm now data sev tt v thr db) = rows db"
    and "butlast (pending (create_threshold_alarm now data sev tt v thr db)) = pending db"
    and "severity (last (pending (create_threshold_alarm now data sev tt v thr db))) = sev"
    and "similar_alarm data (last (pending (create_threshold_alarm now data sev tt v thr db)))"
  using assms by (simp_all add: create_threshold_alarm_def similar_alarm_def)

lemma filter_update_first:
  "(\<And>x. Q (f x) = Q x) \<Longrightarrow> length (filter Q (update_first P f xs)) = length (filter Q xs)"
  by (induction xs) simp_all

text \<open>
  The number of ACTIVE alarms of any source and alarm type among the rows is not
  changed by a call; the call adds at most one pending alarm, and none when the query
  finds a row.
\<close>

lemma create_threshold_alarm_rows:
  "length (filter (similar_alarm data') (rows (create_threshold_alarm now data sev tt v thr db))) =
     length (filter (similar_alarm data') (rows db))"
  by (simp add: create_threshold_alarm_def filter_update_first similar_alarm_def
      split: option.splits)

lemma create_threshold_alarm_pending:
  "pending (create_threshold_alarm now data sev tt v thr db) =
     (if find (similar_alarm data) (rows db) = None
      then pending db @ [last (pending (create_threshold_alarm now data sev tt v thr db))]
      else pending db)"
  by (simp add: create_threshold_alarm_def split: option.splits)

text \<open>
  Claim C2. When the threshold pair of the sample's metric type has a critical and a
  warning bound and the value reaches both, the check takes the critical branch: it
  calls \<open>_create_threshold_alarm\<close> with severity CRITICAL and the critical
  bound. The warning branch is taken only when the critical test fails, so WARNING is
  never the outcome for a value that reaches the critical bound.
\<close>

theorem critical_takes_precedence:
  assumes "map_of ths (pd_metric_type data) = Some th"
    and "map_of th ''critical'' = Some c"
    and "map_of th ''warning'' = Some w"
    and "c \<le> pd_value data"
    and "w \<le> pd_value data"
  shows "threshold_branch th (pd_value data) = Inr (Some (CRITICAL, ''critical'', c)) \<and>
         threshold_branch th (pd_value data) \<noteq> Inr (Some (WARNING, ''warning'', w)) \<and>
         check_sample ths now data db =
           Inr (create_threshold_alarm now data CRITICAL ''critical'' (pd_value data) c db)"
proof -
  have b: "threshold_branch th (pd_value data) = Inr (Some (CRITICAL, ''critical'', c))"
    using assms(2,4) by (simp add: threshold_branch_def at_least_def)
  then show ?thesis
    using assms(1) by (simp add: check_sample_def)
qed

theorem critical_takes_precedence_witness:
  "threshold_branch [(''warning'', 80), (''critical'', 95)] 97 =
     Inr (Some (CRITICAL, ''critical'', 95)) \<and>
   check_sample thresholds 5 (cpu_sample 97 0) \<lparr>rows = [], pending = []\<rparr> =
     Inr (create_threshold_alarm 5 (cpu_sample 97 0) CRITICAL ''critical'' 97 95
            \<lparr>rows = [], pending = []\<rparr>)"
  using critical_takes_precedence [of thresholds "cpu_sample 97 0"
      "[(''warning'', 80), (''critical'', 95)]" 95 80 5 "\<lparr>rows = [], pending = []\<rparr>"]
  by (simp add: thresholds_def cpu_sample_def)

text \<open>
  The warning branch is reached only past a failed critical test.
\<close>

lemma warning_only_below_critical:
  "threshold_branch th v = Inr (Some (WARNING, tt, b)) \<Longrightarrow>
     \<not> at_least v (map_of th ''critical'') \<and> \<not> at_most v (map_of th ''critical_low'')"
  by (auto simp: threshold_branch_def split: if_splits option.splits)

text \<open>
  Claim C7. A sample whose metric type has no entry in the threshold table leaves the
  session as it is: no row is updated and nothing is added.
\<close>

theorem no_threshold_no_effect:
  "map_of ths (pd_metric_type data) = None \<Longrightarrow> check_sample ths now data db = Inr db"
  by (simp add: check_sample_def)

theorem no_threshold_no_effect_witness:
  "map_of thresholds (pd_metric_type latency_sample) = None \<and>
   check_sample thresholds 5 latency_sample \<lparr>rows = [sample_alarm], pending = []\<rparr> =
     Inr \<lparr>rows = [sample_alarm], pending = []\<rparr>"
  using no_threshold_no_effect [of thresholds latency_sample 5
      "\<lparr>rows = [sample_alarm], pending = []\<rparr>"]
  by (simp add: thresholds_def latency_sample_def)

lemma check_loop_no_thresholds:
  "\<forall>d \<in> set samples. map_of ths (pd_metric_type d) = None \<Longrightarrow>
     check_loop ths clock i samples db = Inr db"
  by (induction samples arbitrary: i) (simp_all add: check_sample_def)

text \<open>
  Claim C3. The table gives \<open>optical_power_rx\<close> the bounds warning -25 and
  critical -30 under the keys \<open>warning\<close> and \<open>critical\<close>, which the
  check compares with \<open>>=\<close>. A healthy reading of -10 dBm therefore takes
  the critical branch, and a reading of -35 dBm, below both bounds, takes none.
\<close>

theorem rx_power_direction:
  "check_sample thresholds 5 (rx_sample (- 10)) \<lparr>rows = [], pending = []\<rparr> =
     Inr (create_threshold_alarm 5 (rx_sample (- 10)) CRITICAL ''critical'' (- 10) (- 30)
            \<lparr>rows = [], pending = []\<rparr>) \<and>
   check_sample thresholds 5 (rx_sample (- 35)) \<lparr>rows = [], pending = []\<rparr> =
     Inr \<lparr>rows = [], pending = []\<rparr>"
  by (simp add: check_sample_def thresholds_def rx_sample_def threshold_branch_def
      at_least_def at_most_def)

text \<open>
  Claim C1. One pass of \<open>_check_thresholds\<close> over two samples of the same
  device and metric type, both above the critical bound, starting from an empty alarm
  table: the query of the second call does not see the alarm the first call added, a
  second alarm is added, and the commit stores two ACTIVE alarms with the same key.
\<close>

theorem duplicate_active_alarms:
  "(case check_thresholds thresholds 100 (\<lambda>i. 100 + int i)
           [cpu_sample 96 10, cpu_sample 96 20] [] of
      Inl e \<Rightarrow> False
    | Inr alarms \<Rightarrow>
        length alarms = 2 \<and> length (filter (similar_alarm (cpu_sample 96 10)) alarms) = 2)"
  by (simp add: check_thresholds_def recent_data_def check_sample_def thresholds_def
      cpu_sample_def threshold_branch_def at_least_def at_most_def
      create_threshold_alarm_def similar_alarm_def commit_def Let_def)

section \<open>Properties of the scheduler\<close>

lemma mark_error_count: "error_count (mark_error now t) = error_count t + 1"
  by (simp add: mark_error_def schedule_next_run_def Let_def)

lemma mark_error_max: "max_errors (mark_error now t) = max_errors t"
  by (simp add: mark_error_def schedule_next_run_def Let_def)

lemma mark_error_disables:
  "max_errors t \<le> error_count t + 1 \<Longrightarrow> \<not> enabled (mark_error now t)"
  by (simp add: mark_error_def Let_def)

lemma mark_error_retry:
  "error_count t + 1 < max_errors t \<Longrightarrow>
     enabled (mark_error now t) = enabled t \<and>
     next_run (mark_error now t) = Some (now + interval_seconds t * 1000000)"
  by (simp add: mark_error_def schedule_next_run_def Let_def)

lemma failures_count:
  "error_count (((execute_task False n1 n2 n3) ^^ k) t) = error_count t + int k \<and>
   max_errors (((execute_task False n1 n2 n3) ^^ k) t) = max_errors t"
  by (induction k) (simp_all add: execute_task_def mark_error_count mark_error_max)

lemma failures_disable:
  assumes "error_count t = 0" and "max_errors t = int m" and "0 < m"
  shows "\<not> enabled (((execute_task False n1 n2 n3) ^^ m) t)"
proof -
  obtain k where m: "m = Suc k"
    using assms(3) by (cases m) simp_all
  let ?u = "((execute_task False n1 n2 n3) ^^ k) t"
  have "error_count ?u = int k" and "max_errors ?u = int m"
    using failures_count [where k = k and t = t and ?n1.0 = n1 and ?n2.0 = n2 and ?n3.0 = n3]
      assms(1,2) by simp_all
  then have "max_errors ?u \<le> error_count ?u + 1"
    using m by simp
  then have "\<not> enabled (mark_error n3 ?u)"
    by (rule mark_error_disables)
  then show ?thesis
    by (simp add: m execute_task_def)
qed

lemma disabled_not_selected:
  "\<not> enabled t \<Longrightarrow> due_tasks ((now, t) # rest) = due_tasks rest"
  by (simp add: is_due_def split: sum.splits)

text \<open>
  Claim C4. An execution whose task body raises adds one to \<open>error_count\<close>.
  When the counter reaches \<open>max_errors\<close> the task is disabled, otherwise the
  next run is scheduled; a disabled task is left out by the selection of the
  scheduler loop at any clock reading, and since only selected tasks are executed
  nothing enables it again. From a counter of 0, \<open>max_errors\<close> failures in a
  row disable the task. An execution whose \<open>try\<close> block completes (the
  body returns and the callback, if any, does not raise) sets the counter to 0 and
  \<open>next_run\<close> to the clock reading plus the interval.
\<close>

theorem task_error_budget:
  "error_count (execute_task False n1 n2 n3 t) = error_count t + 1 \<and>
   (max_errors t \<le> error_count t + 1 \<longrightarrow> \<not> enabled (execute_task False n1 n2 n3 t)) \<and>
   (error_count t + 1 < max_errors t \<longrightarrow>
      enabled (execute_task False n1 n2 n3 t) = enabled t \<and>
      next_run (execute_task False n1 n2 n3 t) = Some (n3 + interval_seconds t * 1000000)) \<and>
   (\<not> enabled t \<longrightarrow> due_tasks ((now, t) # rest) = due_tasks rest) \<and>
   (error_count t = 0 \<and> max_errors t = int m \<and> 0 < m \<longrightarrow>
      \<not> enabled (((execute_task False n1 n2 n3) ^^ m) t)) \<and>
   ((case callback t of None \<Rightarrow> True | Some cb \<Rightarrow> \<not> raises_on_success cb) \<longrightarrow>
      error_count (execute_task True n1 n2 n3 t) = 0 \<and>
      last_run (execute_task True n1 n2 n3 t) = Some n1 \<and>
      next_run (execute_task True n1 n2 n3 t) = Some (n2 + interval_seconds t * 1000000))"
proof -
  have success:
    "(case callback t of None \<Rightarrow> True | Some cb \<Rightarrow> \<not> raises_on_success cb) \<longrightarrow>
      error_count (execute_task True n1 n2 n3 t) = 0 \<and>
      last_run (execute_task True n1 n2 n3 t) = Some n1 \<and>
      next_run (execute_task True n1 n2 n3 t) = Some (n2 + interval_seconds t * 1000000)"
    by (simp add: execute_task_def mark_success_def schedule_next_run_def Let_def
        split: option.splits)
  have failure: "execute_task False n1 n2 n3 t = mark_error n3 t"
    by (simp add: execute_task_def)
  show ?thesis
    using success disabled_not_selected [of t now rest] failures_disable [where t = t and m = m and ?n1.0 = n1 and ?n2.0 = n2 and ?n3.0 = n3]
      mark_error_count [of n3 t] mark_error_disables [of t n3] mark_error_retry [of t n3]
    unfolding failure by blast
qed

theorem task_error_budget_witness:
  "error_count (execute_task False 10 11 12 sample_task) = 1 \<and>
   enabled (execute_task False 10 11 12 sample_task) \<and>
   next_run (execute_task False 10 11 12 sample_task) = Some 300000012 \<and>
   \<not> enabled (((execute_task False 10 11 12) ^^ 3) sample_task) \<and>
   due_tasks [(999, ((execute_task False 10 11 12) ^^ 3) sample_task), (999, sample_task)] =
     Inr [sample_task] \<and>
   error_count (execute_task True 10 11 12 (sample_task\<lparr>error_count := 2\<rparr>)) = 0 \<and>
   next_run (execute_task True 10 11 12 (sample_task\<lparr>error_count := 2\<rparr>)) =
     Some 300000011"
proof -
  have d: "\<not> enabled (((execute_task False 10 11 12) ^^ 3) sample_task)"
    using task_error_budget [of 10 11 12 sample_task 0 "[]" 3]
    by (simp add: sample_task_def)
  have s: "due_tasks [(999, sample_task)] = Inr [sample_task]"
    by (simp add: sample_task_def is_due_def is_healthy_def)
  have "due_tasks [(999, ((execute_task False 10 11 12) ^^ 3) sample_task), (999, sample_task)] =
          due_tasks [(999, sample_task)]"
    using task_error_budget [of 10 11 12 "((execute_task False 10 11 12) ^^ 3) sample_task"
        999 "[(999, sample_task)]" 0] d
    by blast
  then show ?thesis
    using d s task_error_budget [of 10 11 12 sample_task 0 "[]" 0]
      task_error_budget [of 10 11 12 "sample_task\<lparr>error_count := 2\<rparr>" 0 "[]" 0]
    by (simp add: sample_task_def)
qed

text \<open>
  Claim C10. A task constructed without \<open>next_run\<close> gets the construction time
  as \<open>next_run\<close>, so an enabled new task is due at every later clock reading.
  The four default tasks, added to an empty table, are all selected by the first pass
  of the scheduler loop.
\<close>

theorem new_task_due_at_once:
  "(next_run t = None \<longrightarrow> next_run (post_init t0 t) = Some t0) \<and>
   (next_run t = None \<and> enabled t \<and> t0 \<le> now \<longrightarrow> is_due now (post_init t0 t) = Inr True) \<and>
   (c1 \<le> n1 \<and> c2 \<le> n2 \<and> c3 \<le> n3 \<and> c4 \<le> n4 \<longrightarrow>
      due_tasks (zip [n1, n2, n3, n4] (map snd (initialize_default_tasks c1 c2 c3 c4 []))) =
        Inr (map snd (initialize_default_tasks c1 c2 c3 c4 [])))"
proof -
  have "c1 \<le> n1 \<and> c2 \<le> n2 \<and> c3 \<le> n3 \<and> c4 \<le> n4 \<longrightarrow>
      due_tasks (zip [n1, n2, n3, n4] (map snd (initialize_default_tasks c1 c2 c3 c4 []))) =
        Inr (map snd (initialize_default_tasks c1 c2 c3 c4 []))"
    by (simp add: initialize_default_tasks_def add_task_def new_task_def post_init_def
        is_due_def is_healthy_def)
  then show ?thesis
    by (simp add: post_init_def is_due_def)
qed

theorem new_task_due_at_once_witness:
  "next_run (post_init 7 (sample_task\<lparr>next_run := None\<rparr>)) = Some 7 \<and>
   is_due 8 (post_init 7 (sample_task\<lparr>next_run := None\<rparr>)) = Inr True \<and>
   due_tasks (zip [5, 6, 7, 8] (map snd (initialize_default_tasks 1 2 3 4 []))) =
     Inr (map snd (initialize_default_tasks 1 2 3 4 [])) \<and>
   length (map snd (initialize_default_tasks 1 2 3 4 [])) = 4"
  using new_task_due_at_once [of "sample_task\<lparr>next_run := None\<rparr>" 7 8 1 5 2 6 3 7 4 8]
  by (simp add: sample_task_def initialize_default_tasks_def add_task_def new_task_def
      post_init_def)

section \<open>Properties of the SNMP client and the adapter\<close>

lemmas port_oid_defs = OID_PORT_ADMIN_STATUS_def OID_PORT_OPER_STATUS_def
  OID_PORT_ONT_COUNT_def OID_PORT_MAX_ONT_def OID_PORT_OPTICAL_TX_def
  OID_PORT_OPTICAL_RX_def OID_PORT_TEMPERATURE_def OID_PORT_VOLTAGE_def
  OID_PORT_BIAS_CURRENT_def OID_PORT_RX_BYTES_def OID_PORT_TX_BYTES_def
  OID_PORT_RX_PACKETS_def OID_PORT_TX_PACKETS_def OID_PORT_RX_ERRORS_def
  OID_PORT_TX_ERRORS_def

lemmas ont_oid_defs = OID_ONT_STATUS_def OID_ONT_DISTANCE_def OID_ONT_RX_POWER_def
  OID_ONT_TX_POWER_def OID_ONT_VOLTAGE_def OID_ONT_TEMPERATURE_def OID_ONT_SERIAL_def
  OID_ONT_FIRMWARE_def OID_ONT_HARDWARE_def OID_ONT_MAC_def OID_ONT_UPTIME_def
  OID_ONT_RX_BYTES_def OID_ONT_TX_BYTES_def OID_ONT_RX_PACKETS_def OID_ONT_TX_PACKETS_def

lemma zip_snoc:
  "zip xs (ys @ [y]) =
     (if length ys < length xs then zip xs ys @ [(xs ! length ys, y)] else zip xs ys)"
proof (induction ys arbitrary: xs)
  case Nil
  then show ?case by (cases xs) simp_all
next
  case (Cons a ys)
  then show ?case by (cases xs) simp_all
qed

text \<open>
  The assignments of \<open>get_bulk\<close>, as a map: the identifiers paired with the
  returned values in order, a later pair overriding an earlier one for the same
  identifier.
\<close>

lemma bulk_fold:
  "map_of (foldl (\<lambda>results (i, var_bind).
                    if i < length oids
                    then AList.update (oids ! i) (snd var_bind) results
                    else results)
             [] (enumerate 0 vbs)) =
   map_of (rev (zip oids (map snd vbs)))"
proof (induction vbs rule: rev_induct)
  case Nil
  then show ?case by simp
next
  case (snoc vb vbs)
  then show ?case
    by (simp add: enumerate_append_eq zip_snoc update_conv')
qed

lemma map_of_rev_distinct:
  assumes "distinct (map fst xs)"
  shows "map_of (rev xs) = map_of xs"
proof -
  have "distinct (map fst (rev xs))"
    using assms unfolding rev_map [symmetric] by simp
  then show ?thesis
    using assms by (simp add: map_of_inject_set)
qed

lemma get_bulk_error:
  assumes "getCmd e d oids = (Reply ei es vbs, d')" and "ei \<noteq> None \<or> es \<noteq> 0"
  shows "fst (get_bulk e oids d) = []"
  using assms by (auto simp: get_bulk_def)

lemma get_bulk_ok:
  assumes "getCmd e d oids = (Reply None 0 vbs, d')"
    and "length vbs = length oids" and "distinct oids"
  shows "map_of (fst (get_bulk e oids d)) = map_of (zip oids (map snd vbs))"
proof -
  have "map_of (fst (get_bulk e oids d)) = map_of (rev (zip oids (map snd vbs)))"
    using assms(1) by (simp add: get_bulk_def bulk_fold)
  moreover have "distinct (map fst (zip oids (map snd vbs)))"
    using assms(2,3) by (simp add: map_fst_zip)
  ultimately show ?thesis
    by (simp add: map_of_rev_distinct)
qed

lemma get_bulk_some:
  assumes "getCmd e d oids = (Reply None 0 vbs, d')" and "length vbs = length oids"
    and "i < length oids"
  shows "\<exists>j < length oids. oids ! j = oids ! i \<and>
           map_of (fst (get_bulk e oids d)) (oids ! i) = Some (snd (vbs ! j))"
proof -
  let ?ps = "zip oids (map snd vbs)"
  have m: "map_of (fst (get_bulk e oids d)) = map_of (rev ?ps)"
    using assms(1) by (simp add: get_bulk_def bulk_fold)
  have "set (map fst (rev ?ps)) = set oids"
    using assms(2) by (simp add: map_fst_zip flip: rev_map)
  then have "fst ` set (rev ?ps) = set oids"
    by (simp only: set_map)
  then have "oids ! i \<in> dom (map_of (rev ?ps))"
    unfolding dom_map_of_conv_image_fst using assms(3) by simp
  then obtain v where v: "map_of (rev ?ps) (oids ! i) = Some v"
    by blast
  then have "(oids ! i, v) \<in> set ?ps"
    using map_of_SomeD by fastforce
  then obtain j where "j < length oids" and "oids ! j = oids ! i" and "v = snd (vbs ! j)"
    using assms(2) by (auto simp: in_set_zip)
  then show ?thesis
    using m v by auto
qed

text \<open>
  Claim C5. When the answer to the request carries an error indication or an error
  status, \<open>get_bulk\<close> returns the empty dict. When it carries neither, and
  holds one variable binding for each of the N identifiers asked for, the dict
  returned has exactly the N identifiers as keys and maps each of them to the value
  of a binding at a position where that identifier was asked for; when the
  identifiers are distinct, the \<open>i\<close>-th one is mapped to the value of the
  \<open>i\<close>-th binding.
\<close>

theorem get_bulk_all_or_nothing:
  "(getCmd e d oids = (Reply ei es vbs, d') \<and> (ei \<noteq> None \<or> es \<noteq> 0) \<longrightarrow>
      fst (get_bulk e oids d) = []) \<and>
   (getCmd e d oids = (Reply None 0 vbs, d') \<and> length vbs = length oids \<longrightarrow>
      (\<forall>i < length oids. \<exists>j < length oids. oids ! j = oids ! i \<and>
          map_of (fst (get_bulk e oids d)) (oids ! i) = Some (snd (vbs ! j)))) \<and>
   (getCmd e d oids = (Reply None 0 vbs, d') \<and> length vbs = length oids \<and> distinct oids \<longrightarrow>
      dom (map_of (fst (get_bulk e oids d))) = set oids \<and>
      (\<forall>i < length oids. map_of (fst (get_bulk e oids d)) (oids ! i) = Some (snd (vbs ! i))))"
proof -
  have "dom (map_of (fst (get_bulk e oids d))) = set oids \<and>
      (\<forall>i < length oids. map_of (fst (get_bulk e oids d)) (oids ! i) = Some (snd (vbs ! i)))"
    if ok: "getCmd e d oids = (Reply None 0 vbs, d')"
      and len: "length vbs = length oids" and dist: "distinct oids"
  proof -
    have m: "map_of (fst (get_bulk e oids d)) = map_of (zip oids (map snd vbs))"
      using ok len dist by (rule get_bulk_ok)
    have "map_of (zip oids (map snd vbs)) (oids ! i) = Some (snd (vbs ! i))"
      if "i < length oids" for i
      using map_of_zip_nth [of oids "map snd vbs" i] len dist that by simp
    then show ?thesis
      using len by (simp add: m)
  qed
  then show ?thesis
    using get_bulk_error [of e d oids ei es vbs d'] get_bulk_some [of e d oids vbs d']
    by blast
qed

theorem get_bulk_all_or_nothing_witness:
  "fst (get_bulk test_env (ont_oids 1 1 2) ()) = [] \<and>
   dom (map_of (fst (get_bulk test_env (ont_oids 1 1 3) ()))) = set (ont_oids 1 1 3) \<and>
   map_of (fst (get_bulk test_env (ont_oids 1 1 3) ())) (ont_oids 1 1 3 ! 4) = Some (- 2550) \<and>
   length (ont_oids 1 1 3) = 15"
proof -
  have d: "distinct (ont_oids 1 1 3)"
    by (simp add: ont_oids_def ont_oid_defs)
  have g2: "getCmd test_env () (ont_oids 1 1 2) = (Reply (Some ''requestTimedOut'') 0 [], ())"
    by (simp add: test_env_def ont_oids_def)
  have g3: "getCmd test_env () (ont_oids 1 1 3) =
              (Reply None 0 (map (\<lambda>oid. (oid, - 2550)) (ont_oids 1 1 3)), ())"
    by (simp add: test_env_def ont_oids_def)
  have l: "length (ont_oids 1 1 3) = 15"
    by (simp add: ont_oids_def)
  have "fst (get_bulk test_env (ont_oids 1 1 2) ()) = []"
    using get_bulk_all_or_nothing [of test_env "()" "ont_oids 1 1 2"
        "Some ''requestTimedOut''" 0 "[]" "()"] g2
    by simp
  moreover have "dom (map_of (fst (get_bulk test_env (ont_oids 1 1 3) ()))) =
        set (ont_oids 1 1 3) \<and>
      (\<forall>i < length (ont_oids 1 1 3).
          map_of (fst (get_bulk test_env (ont_oids 1 1 3) ())) (ont_oids 1 1 3 ! i) =
            Some (snd (map (\<lambda>oid. (oid, - 2550)) (ont_oids 1 1 3) ! i)))"
    using get_bulk_all_or_nothing [of test_env "()" "ont_oids 1 1 3" None 0
        "map (\<lambda>oid. (oid, - 2550)) (ont_oids 1 1 3)" "()"] g3 d
    by simp
  ultimately show ?thesis
    using l by simp
qed

lemma onts_loop_fetches:
  "fst (onts_loop e s p entries onts d) =
     onts @ map the (filter (\<lambda>r. r \<noteq> None) (ont_fetches e s p entries d))"
  by (induction entries arbitrary: onts d) (auto split: option.splits prod.splits)

lemma ont_fetches_length:
  "\<forall>(oid, v) \<in> set entries. oid \<noteq> [] \<Longrightarrow> length (ont_fetches e s p entries d) = length entries"
  by (induction entries arbitrary: d) (auto simp: last_arc_def split: prod.splits)

lemma length_successes:
  "length (filter (\<lambda>r. r \<noteq> None) fs) = length fs - length (filter (\<lambda>r. r = None) fs)"
  using sum_length_filter_compl [of "\<lambda>r. r = None" fs] by linarith

text \<open>
  Claim C6. \<open>discover_all_onts\<close> returns, in the order of the walk, the record
  of every detail fetch that did not yield \<open>None\<close>: a failed fetch is skipped and
  the loop goes on. With N enumerated ONTs (N fetches) of which one fails, the result
  has N - 1 records.
\<close>

theorem partial_discovery:
  assumes "walk e (OID_ONT_STATUS @ [s, p]) d = (entries, d1)"
    and "fs = ont_fetches e s p entries d1"
  shows "fst (discover_all_onts e s p d) = map the (filter (\<lambda>r. r \<noteq> None) fs) \<and>
         length (fst (discover_all_onts e s p d)) =
           length fs - length (filter (\<lambda>r. r = None) fs) \<and>
         (length (filter (\<lambda>r. r = None) fs) = 1 \<longrightarrow>
            length (fst (discover_all_onts e s p d)) = length fs - 1) \<and>
         ((\<forall>(oid, v) \<in> set entries. oid \<noteq> []) \<longrightarrow> length fs = length entries)"
proof -
  have r: "fst (discover_all_onts e s p d) = map the (filter (\<lambda>r. r \<noteq> None) fs)"
    using assms by (simp add: discover_all_onts_def onts_loop_fetches)
  have "length (fst (discover_all_onts e s p d)) = length fs - length (filter (\<lambda>r. r = None) fs)"
    unfolding r by (simp only: length_map length_successes)
  then show ?thesis
    using r ont_fetches_length [of entries e s p d1] assms(2) by auto
qed

lemma test_walk:
  "walk test_env (OID_ONT_STATUS @ [1, 1]) () =
     ([(OID_ONT_STATUS @ [1, 1, 1], 1), (OID_ONT_STATUS @ [1, 1, 2], 1),
       (OID_ONT_STATUS @ [1, 1, 3], 1)], ())"
  by (simp add: walk_def test_env_def)

lemma test_fetch_fails: "get_ont_info test_env 1 1 2 () = (None, ())"
  by (simp add: get_ont_info_def get_bulk_def test_env_def ont_oids_def)

lemma test_fetch_1:
  "map_option ont_id (fst (get_ont_info test_env 1 1 1 ())) = Some 1 \<and>
   map_option rx_power (fst (get_ont_info test_env 1 1 1 ())) = Some (- 25.5) \<and>
   snd (get_ont_info test_env 1 1 1 ()) = ()"
  by (simp add: get_ont_info_def get_bulk_def test_env_def ont_oids_def ont_oid_defs
      parse_ont_info_def get_int_def get_float_def get_str_def)

lemma test_fetch_3:
  "map_option ont_id (fst (get_ont_info test_env 1 1 3 ())) = Some 3 \<and>
   snd (get_ont_info test_env 1 1 3 ()) = ()"
  by (simp add: get_ont_info_def get_bulk_def test_env_def ont_oids_def ont_oid_defs
      parse_ont_info_def get_int_def get_float_def get_str_def)

theorem partial_discovery_witness:
  "length (ont_fetches test_env 1 1 (fst (walk test_env (OID_ONT_STATUS @ [1, 1]) ())) ()) = 3 \<and>
   ont_fetches test_env 1 1 (fst (walk test_env (OID_ONT_STATUS @ [1, 1]) ())) () ! 1 = None \<and>
   map ont_id (fst (discover_all_onts test_env 1 1 ())) = [1, 3]"
proof -
  let ?entries = "[(OID_ONT_STATUS @ [1, 1, 1], 1), (OID_ONT_STATUS @ [1, 1, 2], 1),
       (OID_ONT_STATUS @ [1, 1, 3], 1)] :: (oid \<times> int) list"
  let ?fs = "ont_fetches test_env 1 1 ?entries ()"
  obtain r1 where r1: "get_ont_info test_env 1 1 1 () = (Some r1, ())" and i1: "ont_id r1 = 1"
    using test_fetch_1 by (cases "get_ont_info test_env 1 1 1 ()") auto
  obtain r3 where r3: "get_ont_info test_env 1 1 3 () = (Some r3, ())" and i3: "ont_id r3 = 3"
    using test_fetch_3 by (cases "get_ont_info test_env 1 1 3 ()") auto
  have fs: "?fs = [Some r1, None, Some r3]"
    by (simp add: last_arc_def r1 r3 test_fetch_fails)
  have w: "fst (walk test_env (OID_ONT_STATUS @ [1, 1]) ()) = ?entries"
    by (simp add: test_walk)
  have "fst (discover_all_onts test_env 1 1 ()) = map the (filter (\<lambda>r. r \<noteq> None) ?fs)"
    using partial_discovery [OF test_walk refl] by blast
  then have res: "fst (discover_all_onts test_env 1 1 ()) = [r1, r3]"
    unfolding fs by simp
  show ?thesis
    unfolding w fs res by (simp add: i1 i3)
qed

lemma bind_Some: "(Option.bind x f = Some y) = (\<exists>z. x = Some z \<and> f z = Some y)"
  by (cases x) simp_all

text \<open>
  Claim C9. In the records the adapter builds, an optical power is the number read
  for its identifier divided by 100, and a voltage or bias current the number read
  divided by 1000; \<open>get_float\<close> is the number read,
  \<open>float(data.get(key, 0))\<close>. For a raw integer \<open>n\<close> the number read is
  \<open>n\<close>, so a raw -2550 gives -25.5.
\<close>

theorem fixed_point_scaling:
  "(parse_ont_info e s p i ont_data = Some oinfo \<longrightarrow>
      get_float e ont_data (OID_ONT_RX_POWER @ [s, p, i]) = Some (rx_power oinfo * 100) \<and>
      get_float e ont_data (OID_ONT_TX_POWER @ [s, p, i]) = Some (tx_power oinfo * 100) \<and>
      get_float e ont_data (OID_ONT_VOLTAGE @ [s, p, i]) = Some (ont_voltage oinfo * 1000)) \<and>
   (parse_port_info e s p port_data = Some pinfo \<longrightarrow>
      get_float e port_data (OID_PORT_OPTICAL_TX @ [s, p]) = Some (optical_power_tx pinfo * 100) \<and>
      get_float e port_data (OID_PORT_OPTICAL_RX @ [s, p]) = Some (optical_power_rx pinfo * 100) \<and>
      get_float e port_data (OID_PORT_VOLTAGE @ [s, p]) = Some (voltage pinfo * 1000) \<and>
      get_float e port_data (OID_PORT_BIAS_CURRENT @ [s, p]) = Some (bias_current pinfo * 1000)) \<and>
   (map_of ont_data (OID_ONT_RX_POWER @ [s, p, i]) = Some v \<and>
    py_float e v = Some (real_of_int n) \<and> parse_ont_info e s p i ont_data = Some oinfo \<longrightarrow>
      rx_power oinfo = real_of_int n / 100)"
proof -
  have ont: "parse_ont_info e s p i ont_data = Some oinfo \<longrightarrow>
      get_float e ont_data (OID_ONT_RX_POWER @ [s, p, i]) = Some (rx_power oinfo * 100) \<and>
      get_float e ont_data (OID_ONT_TX_POWER @ [s, p, i]) = Some (tx_power oinfo * 100) \<and>
      get_float e ont_data (OID_ONT_VOLTAGE @ [s, p, i]) = Some (ont_voltage oinfo * 1000)"
    unfolding parse_ont_info_def by (auto simp: bind_Some)
  have prt: "parse_port_info e s p port_data = Some pinfo \<longrightarrow>
      get_float e port_data (OID_PORT_OPTICAL_TX @ [s, p]) = Some (optical_power_tx pinfo * 100) \<and>
      get_float e port_data (OID_PORT_OPTICAL_RX @ [s, p]) = Some (optical_power_rx pinfo * 100) \<and>
      get_float e port_data (OID_PORT_VOLTAGE @ [s, p]) = Some (voltage pinfo * 1000) \<and>
      get_float e port_data (OID_PORT_BIAS_CURRENT @ [s, p]) = Some (bias_current pinfo * 1000)"
    unfolding parse_port_info_def by (auto simp: bind_Some)
  have "rx_power oinfo = real_of_int n / 100"
    if "map_of ont_data (OID_ONT_RX_POWER @ [s, p, i]) = Some v"
      and "py_float e v = Some (real_of_int n)"
      and "parse_ont_info e s p i ont_data = Some oinfo"
  proof -
    have "get_float e ont_data (OID_ONT_RX_POWER @ [s, p, i]) = Some (real_of_int n)"
      using that(1,2) by (simp add: get_float_def)
    then have "real_of_int n = rx_power oinfo * 100"
      using ont that(3) by simp
    then show ?thesis by simp
  qed
  then show ?thesis
    using ont prt by blast
qed

theorem fixed_point_scaling_witness:
  "map_option rx_power (parse_ont_info test_env 1 1 1 [(OID_ONT_RX_POWER @ [1, 1, 1], - 2550)]) =
     Some (- 25.5) \<and>
   map_option rx_power (fst (get_ont_info test_env 1 1 1 ())) = Some (- 25.5) \<and>
   map_option voltage (parse_port_info test_env 1 2 [(OID_PORT_VOLTAGE @ [1, 2], 3300)]) =
     Some 3.3 \<and>
   map_option optical_power_rx
       (parse_port_info test_env 1 2 [(OID_PORT_OPTICAL_RX @ [1, 2], - 2550)]) =
     Some (- 25.5)"
proof -
  let ?data = "[(OID_ONT_RX_POWER @ [1, 1, 1], - 2550)] :: (oid \<times> int) list"
  let ?pv = "[(OID_PORT_VOLTAGE @ [1, 2], 3300)] :: (oid \<times> int) list"
  let ?pr = "[(OID_PORT_OPTICAL_RX @ [1, 2], - 2550)] :: (oid \<times> int) list"
  obtain oinfo where oinfo: "parse_ont_info test_env 1 1 1 ?data = Some oinfo"
    by (simp add: parse_ont_info_def get_int_def get_float_def test_env_def ont_oid_defs)
  obtain pv where pv: "parse_port_info test_env 1 2 ?pv = Some pv"
    by (simp add: parse_port_info_def get_int_def get_float_def test_env_def port_oid_defs)
  obtain pr where pr: "parse_port_info test_env 1 2 ?pr = Some pr"
    by (simp add: parse_port_info_def get_int_def get_float_def test_env_def port_oid_defs)
  have "map_of ?data (OID_ONT_RX_POWER @ [1, 1, 1]) = Some (- 2550)"
    by simp
  moreover have "py_float test_env (- 2550) = Some (real_of_int (- 2550))"
    by (simp add: test_env_def)
  ultimately have "rx_power oinfo = real_of_int (- 2550) / 100"
    using fixed_point_scaling [of test_env 1 1 1 ?data oinfo _ _ "- 2550" "- 2550"] oinfo
    by blast
  moreover have "get_float test_env ?pv (OID_PORT_VOLTAGE @ [1, 2]) = Some (voltage pv * 1000)"
    using fixed_point_scaling [of test_env 1 2 _ _ _ ?pv pv] pv by blast
  then have "voltage pv = 3.3"
    by (simp add: get_float_def test_env_def)
  moreover have "get_float test_env ?pr (OID_PORT_OPTICAL_RX @ [1, 2]) =
      Some (optical_power_rx pr * 100)"
    using fixed_point_scaling [of test_env 1 2 _ _ _ ?pr pr] pr by blast
  then have "optical_power_rx pr = - 25.5"
    by (simp add: get_float_def test_env_def)
  ultimately show ?thesis
    using oinfo pv pr test_fetch_1 by simp
qed


end
